theory Spec2Isabelle
  imports Complex_Main "HOL-Library.Multiset"
begin

section \<open>Python values used by HistoricalTemps.py\<close>

text \<open>
  The exceptions that the code of \<^verbatim>\<open>HistoricalTemps.py\<close> raises or lets through. All of
  them derive from \<^verbatim>\<open>Exception\<close>, so the handler \<^verbatim>\<open>except Exception\<close> of the two
  setters catches each of them. \<open>KeyError\<close> is a subclass of \<open>LookupError\<close> in Python;
  the two are kept apart here because the setters raise the bare \<^verbatim>\<open>LookupError\<close>.
  \<open>RequestException\<close> stands for whatever \<^verbatim>\<open>requests.get\<close> raises when the transport
  fails.
\<close>

datatype pyerr =
    LookupError
  | KeyError
  | TypeError
  | UnboundLocalError
  | JSONDecodeError
  | ZeroDivisionError
  | RequestException

text \<open>
  What \<^verbatim>\<open>json.loads\<close> returns. An object is a Python \<^verbatim>\<open>dict\<close>: an association list in
  insertion order with pairwise different keys. Python's \<^verbatim>\<open>int\<close> and finite \<^verbatim>\<open>float\<close>
  are both values of \<open>real\<close>: their comparisons are exact, also between an \<^verbatim>\<open>int\<close>
  and a \<^verbatim>\<open>float\<close>. The non-standard literals \<^verbatim>\<open>NaN\<close> and \<^verbatim>\<open>Infinity\<close> are outside the
  model. A \<open>char\<close> stands for one character of a \<^verbatim>\<open>str\<close>.
\<close>

datatype json =
    JNull
  | JBool bool
  | JNum real
  | JStr string
  | JArr "json list"
  | JObj "(string \<times> json) list"

text \<open>
  A coordinate as \<^verbatim>\<open>pgeocode\<close> gives it: a float that is \<^verbatim>\<open>nan\<close> where the postal code
  is unknown.
\<close>

datatype pyfloat = NaN | Float real

fun isnan :: "pyfloat \<Rightarrow> bool" where
  "isnan NaN = True"
| "isnan (Float x) = False"

text \<open>An element of the series: the tuple \<^verbatim>\<open>(date, temperature)\<close>.\<close>

type_synonym point = "json \<times> json"

text \<open>
  The row that \<^verbatim>\<open>query_postal_code\<close> returns, with the three columns the code reads.
\<close>

record geo_row =
  geo_latitude :: pyfloat
  geo_longitude :: pyfloat
  geo_place_name :: string

text \<open>
  The library functions the code calls and that are no part of the repository. The
  theorems hold for every such library. \<open>json_loads\<close> is \<^verbatim>\<open>json.loads\<close>, with \<open>None\<close>
  where it raises \<^verbatim>\<open>JSONDecodeError\<close>; \<open>query_postal_code\<close> is the \<^verbatim>\<open>pgeocode\<close> lookup;
  \<open>num_add\<close> and \<open>num_truediv\<close> are Python's \<^verbatim>\<open>+\<close> and \<^verbatim>\<open>/\<close> on numbers, which round
  where a float is involved; \<open>py_round\<close> is \<^verbatim>\<open>round(x, ndigits)\<close> and \<open>str_of_float\<close> is
  how an f-string prints a float.
\<close>

record pylib =
  json_loads :: "string \<Rightarrow> json option"
  query_postal_code :: "string \<Rightarrow> pyerr + geo_row"
  num_add :: "real \<Rightarrow> real \<Rightarrow> real"
  num_truediv :: "real \<Rightarrow> real \<Rightarrow> real"
  py_round :: "real \<Rightarrow> int \<Rightarrow> real"
  str_of_float :: "real \<Rightarrow> string"

section \<open>The network\<close>

text \<open>
  The query that \<^verbatim>\<open>_load_temps\<close> sends: the URL and the dictionary \<^verbatim>\<open>parameters\<close>.
\<close>

record request =
  url :: string
  latitude :: pyfloat
  longitude :: pyfloat
  start_date :: string
  end_date :: string
  daily :: string
  timezone :: string

text \<open>
  The archive is outside the program and may answer the same query differently at
  different times. The state of the world is therefore the sequence of all answers to
  come: \<open>net n q\<close> is what the \<open>n\<close>-th call from now returns for the query \<open>q\<close>, either
  the exception that \<^verbatim>\<open>requests.get\<close> raises or the \<^verbatim>\<open>text\<close> of the response. A call
  consumes the head of the sequence.
\<close>

type_synonym network = "nat \<Rightarrow> request \<Rightarrow> pyerr + string"

definition request_url :: string where
  "request_url = ''https://archive-api.open-meteo.com/v1/archive''"

definition requests_get :: "network \<Rightarrow> request \<Rightarrow> (pyerr + string) \<times> network" where
  "requests_get net q = (net 0 q, \<lambda>n. net (Suc n))"

section \<open>The class HistoricalTemps\<close>

text \<open>
  The object: \<open>ds_start\<close> is \<^verbatim>\<open>self._start\<close>, and so on. \<^verbatim>\<open>self._temp_list\<close> is \<open>None\<close>
  between its initialisation and the first load.
\<close>

record dataset =
  ds_zip_code :: string
  ds_start :: string
  ds_end :: string
  ds_lat :: pyfloat
  ds_lon :: pyfloat
  ds_loc_name :: string
  ds_temp_list :: "point list option"

subsection \<open>\<^verbatim>\<open>_convert_json_to_list\<close>\<close>

text \<open>
  \<^verbatim>\<open>x[k]\<close> for a string \<open>k\<close>: only a \<^verbatim>\<open>dict\<close> can be subscripted by a string; a missing
  key raises \<^verbatim>\<open>KeyError\<close>, every other value raises \<^verbatim>\<open>TypeError\<close>.
\<close>

fun py_getitem :: "json \<Rightarrow> string \<Rightarrow> pyerr + json" where
  "py_getitem (JObj kvs) k = (case map_of kvs k of None \<Rightarrow> Inl KeyError | Some v \<Rightarrow> Inr v)"
| "py_getitem j k = Inl TypeError"

text \<open>
  What a \<^verbatim>\<open>for\<close> loop or \<^verbatim>\<open>zip\<close> iterates over: the keys of a \<^verbatim>\<open>dict\<close>, the elements of a
  \<^verbatim>\<open>list\<close>, the characters of a \<^verbatim>\<open>str\<close>; \<^verbatim>\<open>None\<close>, a \<^verbatim>\<open>bool\<close> and a number are not
  iterable.
\<close>

fun py_iter :: "json \<Rightarrow> pyerr + json list" where
  "py_iter (JObj kvs) = Inr (map (\<lambda>kv. JStr (fst kv)) kvs)"
| "py_iter (JArr xs) = Inr xs"
| "py_iter (JStr s) = Inr (map (\<lambda>c. JStr [c]) s)"
| "py_iter j = Inl TypeError"

text \<open>
  The loop \<^verbatim>\<open>for times in daily_data\<close>. The state is the pair of the local variables
  \<^verbatim>\<open>dates\<close> and \<^verbatim>\<open>temps\<close>, \<open>None\<close> while unbound.
\<close>

fun daily_loop :: "json \<Rightarrow> json list \<Rightarrow> json option \<times> json option \<Rightarrow>
    pyerr + (json option \<times> json option)" where
  "daily_loop daily_data [] (dates, temps) = Inr (dates, temps)"
| "daily_loop daily_data (times' # rest) (dates, temps) =
     (case (if times' = JStr ''time''
            then map_sum id Some (py_getitem daily_data ''time'')
            else Inr dates) of
        Inl e \<Rightarrow> Inl e
      | Inr dates' \<Rightarrow>
          (case (if times' = JStr ''temperature_2m_max''
                 then map_sum id Some (py_getitem daily_data ''temperature_2m_max'')
                 else Inr temps) of
             Inl e \<Rightarrow> Inl e
           | Inr temps' \<Rightarrow> daily_loop daily_data rest (dates', temps')))"

text \<open>
  The comprehension over \<^verbatim>\<open>zip(dates, temps)\<close>: a name that the loop never bound raises
  \<^verbatim>\<open>UnboundLocalError\<close>, and \<^verbatim>\<open>zip\<close> stops at the end of the shorter argument.
\<close>

definition zip_dates_temps :: "json option \<times> json option \<Rightarrow> pyerr + point list" where
  "zip_dates_temps dt =
     (case fst dt of
        None \<Rightarrow> Inl UnboundLocalError
      | Some dates \<Rightarrow>
          (case snd dt of
             None \<Rightarrow> Inl UnboundLocalError
           | Some temps \<Rightarrow>
               (case py_iter dates of
                  Inl e \<Rightarrow> Inl e
                | Inr ds \<Rightarrow>
                    (case py_iter temps of
                       Inl e \<Rightarrow> Inl e
                     | Inr ts \<Rightarrow> Inr (zip ds ts)))))"

definition convert_json_to_list :: "pylib \<Rightarrow> string \<Rightarrow> pyerr + point list" where
  "convert_json_to_list L data =
     (case json_loads L data of
        None \<Rightarrow> Inl JSONDecodeError
      | Some d \<Rightarrow>
          (case py_getitem d ''daily'' of
             Inl e \<Rightarrow> Inl e
           | Inr daily_data \<Rightarrow>
               (case py_iter daily_data of
                  Inl e \<Rightarrow> Inl e
                | Inr items \<Rightarrow>
                    (case daily_loop daily_data items (None, None) of
                       Inl e \<Rightarrow> Inl e
                     | Inr dt \<Rightarrow> zip_dates_temps dt))))"

subsection \<open>\<^verbatim>\<open>zip_to_loc_info\<close> and \<^verbatim>\<open>_load_temps\<close>\<close>

definition zip_to_loc_info :: "pylib \<Rightarrow> string \<Rightarrow> pyerr + (pyfloat \<times> pyfloat \<times> string)" where
  "zip_to_loc_info L zip_code =
     (case query_postal_code L zip_code of
        Inl e \<Rightarrow> Inl e
      | Inr result \<Rightarrow> Inr (geo_latitude result, geo_longitude result, geo_place_name result))"

definition parameters :: "dataset \<Rightarrow> request" where
  "parameters self =
     \<lparr>url = request_url, latitude = ds_lat self, longitude = ds_lon self,
      start_date = ds_start self, end_date = ds_end self,
      daily = ''temperature_2m_max'', timezone = ''America/Los_Angeles''\<rparr>"

text \<open>
  \<^verbatim>\<open>_load_temps\<close> returns the new list and has stored it in the object; when the request
  or the conversion raises, the assignment is not reached and the object is as before.
\<close>

definition load_temps :: "pylib \<Rightarrow> dataset \<Rightarrow> network \<Rightarrow>
    (pyerr + point list) \<times> dataset \<times> network" where
  "load_temps L self net =
     (case requests_get net (parameters self) of
        (Inl e, net') \<Rightarrow> (Inl e, self, net')
      | (Inr text, net') \<Rightarrow>
          (case convert_json_to_list L text of
             Inl e \<Rightarrow> (Inl e, self, net')
           | Inr temp_list \<Rightarrow>
               (Inr temp_list, self\<lparr>ds_temp_list := Some temp_list\<rparr>, net')))"

subsection \<open>The setters of \<^verbatim>\<open>start\<close> and \<^verbatim>\<open>end\<close>\<close>

text \<open>
  A setter returns nothing; its effect is the new object and the new world. The handler
  \<^verbatim>\<open>except Exception\<close> catches whatever the first load raises. The load inside the
  handler is not guarded: what it raises leaves the setter, and \<^verbatim>\<open>raise LookupError\<close>
  is reached only when it returns.
\<close>

definition set_start :: "pylib \<Rightarrow> dataset \<Rightarrow> string \<Rightarrow> network \<Rightarrow>
    (pyerr + unit) \<times> dataset \<times> network" where
  "set_start L self start net =
     (let og_start = ds_start self;
          self1 = self\<lparr>ds_start := start\<rparr>
      in case load_temps L self1 net of
           (Inr r, self2, net2) \<Rightarrow> (Inr (), self2, net2)
         | (Inl e, self2, net2) \<Rightarrow>
             (case load_temps L (self2\<lparr>ds_start := og_start\<rparr>) net2 of
                (Inl e', self3, net3) \<Rightarrow> (Inl e', self3, net3)
              | (Inr r, self3, net3) \<Rightarrow> (Inl LookupError, self3, net3)))"

definition set_end :: "pylib \<Rightarrow> dataset \<Rightarrow> string \<Rightarrow> network \<Rightarrow>
    (pyerr + unit) \<times> dataset \<times> network" where
  "set_end L self end' net =
     (let og_end = ds_end self;
          self1 = self\<lparr>ds_end := end'\<rparr>
      in case load_temps L self1 net of
           (Inr r, self2, net2) \<Rightarrow> (Inr (), self2, net2)
         | (Inl e, self2, net2) \<Rightarrow>
             (case load_temps L (self2\<lparr>ds_end := og_end\<rparr>) net2 of
                (Inl e', self3, net3) \<Rightarrow> (Inl e', self3, net3)
              | (Inr r, self3, net3) \<Rightarrow> (Inl LookupError, self3, net3)))"

subsection \<open>\<^verbatim>\<open>__init__\<close>\<close>

text \<open>
  The constructor either returns the object or raises; an object whose constructor
  raised is never bound to a name. The test \<^verbatim>\<open>m.isnan(results[1])\<close> reads the second
  component of the triple that \<^verbatim>\<open>zip_to_loc_info\<close> returns, the longitude.
\<close>

definition init :: "pylib \<Rightarrow> string \<Rightarrow> string \<Rightarrow> string \<Rightarrow> network \<Rightarrow>
    (pyerr + dataset) \<times> network" where
  "init L zip_code start end' net =
     (case zip_to_loc_info L zip_code of
        Inl e \<Rightarrow> (Inl e, net)
      | Inr results \<Rightarrow>
          if isnan (fst (snd results)) then (Inl LookupError, net)
          else
            (case results of
               (lat, lon, loc_name) \<Rightarrow>
                 (case load_temps L
                         \<lparr>ds_zip_code = zip_code, ds_start = start, ds_end = end',
                          ds_lat = lat, ds_lon = lon, ds_loc_name = loc_name,
                          ds_temp_list = None\<rparr> net of
                    (Inl e, self, net') \<Rightarrow> (Inl e, net')
                  | (Inr r, self, net') \<Rightarrow> (Inr self, net'))))"

definition default_start :: string where
  "default_start = ''1950-08-13''"

definition default_end :: string where
  "default_end = ''2023-08-25''"

subsection \<open>The queries\<close>

text \<open>
  The number that a value of the series counts as in a comparison or a sum: a \<^verbatim>\<open>bool\<close>
  is an \<^verbatim>\<open>int\<close> in Python; \<^verbatim>\<open>None\<close> (the archive's \<^verbatim>\<open>null\<close> for a day without data), a
  string, a list and a dict are no numbers, and comparing one of them with a float or
  adding it to a number raises \<^verbatim>\<open>TypeError\<close>.
\<close>

fun num_of :: "json \<Rightarrow> real option" where
  "num_of (JNum x) = Some x"
| "num_of (JBool b) = Some (if b then 1 else 0)"
| "num_of j = None"

definition is_number :: "json \<Rightarrow> bool" where
  "is_number j = (num_of j \<noteq> None)"

definition temp_of :: "point \<Rightarrow> real" where
  "temp_of p = (case num_of (snd p) of Some x \<Rightarrow> x | None \<Rightarrow> 0)"

text \<open>
  The comprehension of \<^verbatim>\<open>extreme_days\<close>, element by element; the threshold is a finite
  float.
\<close>

fun extremes :: "real \<Rightarrow> point list \<Rightarrow> pyerr + point list" where
  "extremes threshold [] = Inr []"
| "extremes threshold (high_temps # rest) =
     (case num_of (snd high_temps) of
        None \<Rightarrow> Inl TypeError
      | Some x \<Rightarrow>
          (case extremes threshold rest of
             Inl e \<Rightarrow> Inl e
           | Inr extremes_list \<Rightarrow>
               Inr (if x > threshold then high_temps # extremes_list else extremes_list)))"

text \<open>
  The queries return their result and the object, so that what they do to the object
  can be stated. Iterating over \<^verbatim>\<open>None\<close> raises \<^verbatim>\<open>TypeError\<close>.
\<close>

definition extreme_days :: "dataset \<Rightarrow> real \<Rightarrow> (pyerr + point list) \<times> dataset" where
  "extreme_days self threshold =
     (case ds_temp_list self of
        None \<Rightarrow> (Inl TypeError, self)
      | Some temp_list \<Rightarrow> (extremes threshold temp_list, self))"

text \<open>The loop \<^verbatim>\<open>total_temps += temperature[1]\<close> of \<^verbatim>\<open>average_temp\<close>.\<close>

fun sum_temps :: "pylib \<Rightarrow> real \<Rightarrow> point list \<Rightarrow> pyerr + real" where
  "sum_temps L total_temps [] = Inr total_temps"
| "sum_temps L total_temps (temperature # rest) =
     (case num_of (snd temperature) of
        None \<Rightarrow> Inl TypeError
      | Some x \<Rightarrow> sum_temps L (num_add L total_temps x) rest)"

text \<open>
  \<^verbatim>\<open>average_temp\<close> loads first, and \<^verbatim>\<open>_load_temps\<close> has assigned \<^verbatim>\<open>self._temp_list\<close> when
  \<^verbatim>\<open>len(self._temp_list)\<close> is evaluated. Dividing by the length 0 raises
  \<^verbatim>\<open>ZeroDivisionError\<close>.
\<close>

definition average_temp :: "pylib \<Rightarrow> dataset \<Rightarrow> network \<Rightarrow>
    (pyerr + real) \<times> dataset \<times> network" where
  "average_temp L self net =
     (case load_temps L self net of
        (Inl e, self', net') \<Rightarrow> (Inl e, self', net')
      | (Inr temperature_list, self', net') \<Rightarrow>
          (case sum_temps L 0 temperature_list of
             Inl e \<Rightarrow> (Inl e, self', net')
           | Inr total_temps \<Rightarrow>
               (case ds_temp_list self' of
                  None \<Rightarrow> (Inl TypeError, self', net')
                | Some cached \<Rightarrow>
                    if length cached = 0 then (Inl ZeroDivisionError, self', net')
                    else (Inr (num_truediv L total_temps (real (length cached))),
                          self', net'))))"

text \<open>
  \<^verbatim>\<open>sorted(xs, key=lambda x: x[1], reverse=True)\<close>. Python's sort is stable, and with
  \<^verbatim>\<open>reverse=True\<close> it sorts the reversed list and reverses the result, so that elements
  with equal keys keep their order; \<open>sort_key\<close> is the stable sort of the HOL library.
  A list of fewer than two elements is returned without a comparison. The model covers
  keys that are numbers; where a key is not a number it reports the \<^verbatim>\<open>TypeError\<close> that
  Python raises for \<^verbatim>\<open>None\<close>, and the order of two strings or of two lists is not
  modelled.
\<close>

definition sorted_reverse :: "point list \<Rightarrow> pyerr + point list" where
  "sorted_reverse xs =
     (if length xs \<le> 1 then Inr xs
      else if list_all (\<lambda>p. is_number (snd p)) xs
      then Inr (rev (sort_key temp_of (rev xs)))
      else Inl TypeError)"

text \<open>The slice \<^verbatim>\<open>xs[:n]\<close>: a negative \<open>n\<close> counts from the end.\<close>

definition slice_to :: "'a list \<Rightarrow> int \<Rightarrow> 'a list" where
  "slice_to xs n =
     (if 0 \<le> n then take (nat n) xs else take (nat (int (length xs) + n)) xs)"

definition top_x_days :: "dataset \<Rightarrow> int \<Rightarrow> (pyerr + point list) \<times> dataset" where
  "top_x_days self num_days =
     (case ds_temp_list self of
        None \<Rightarrow> (Inl TypeError, self)
      | Some temp_list \<Rightarrow>
          (case sorted_reverse temp_list of
             Inl e \<Rightarrow> (Inl e, self)
           | Inr top_days \<Rightarrow> (Inr (slice_to top_days num_days), self)))"

section \<open>\<^verbatim>\<open>compare_average_temps\<close>\<close>

text \<open>
  The function prints and returns \<^verbatim>\<open>None\<close>. Its result here is the exception, if any, the
  lines printed, the two objects and the world. The two datasets are distinct objects
  (the menu creates each of them with its own constructor call).
\<close>

definition average_line :: "pylib \<Rightarrow> string \<Rightarrow> real \<Rightarrow> string" where
  "average_line L loc_name avg_temp =
     ''The average maximum temperatures for '' @ loc_name @ '' was '' @
     str_of_float L avg_temp @ '' degrees Celsius.''"

definition compare_average_temps :: "pylib \<Rightarrow> dataset option \<Rightarrow> dataset option \<Rightarrow> network \<Rightarrow>
    (pyerr + unit) \<times> string list \<times> dataset option \<times> dataset option \<times> network" where
  "compare_average_temps L dataset_one dataset_two net =
     (case dataset_one of
        None \<Rightarrow> (Inr (), [''Please load two datasets first''], dataset_one, dataset_two, net)
      | Some one \<Rightarrow>
          (case dataset_two of
             None \<Rightarrow>
               (Inr (), [''Please load two datasets first''], dataset_one, dataset_two, net)
           | Some two \<Rightarrow>
               (case average_temp L one net of
                  (Inl e, one', net1) \<Rightarrow> (Inl e, [], Some one', Some two, net1)
                | (Inr avg1, one', net1) \<Rightarrow>
                    (case average_temp L two net1 of
                       (Inl e, two', net2) \<Rightarrow> (Inl e, [], Some one', Some two', net2)
                     | (Inr avg2, two', net2) \<Rightarrow>
                         (Inr (),
                          [average_line L (ds_loc_name one') (py_round L avg1 2),
                           average_line L (ds_loc_name two') (py_round L avg2 2)],
                          Some one', Some two', net2)))))"

section \<open>A concrete library, archive and dataset\<close>

text \<open>
  The theorems below are applied to these values. The payloads are named by short
  texts; \<open>demo_loads\<close> gives the value that \<^verbatim>\<open>json.loads\<close> returns for each. The payload
  \<open>rejected\<close> is the archive's answer to a query it refuses, \<open>ragged\<close> has two dates and
  one temperature, and every other text is no JSON.
\<close>

definition one_day :: "point list" where
  "one_day = [(JStr ''2020-01-01'', JNum 10)]"

definition two_days :: "point list" where
  "two_days = [(JStr ''2020-01-01'', JNum 10), (JStr ''2020-01-02'', JNum 20)]"

definition four_days :: "point list" where
  "four_days =
     [(JStr ''2020-01-01'', JNum 10), (JStr ''2020-01-02'', JNum 30),
      (JStr ''2020-01-03'', JNum 10), (JStr ''2020-01-04'', JNum 30)]"

definition demo_loads :: "string \<Rightarrow> json option" where
  "demo_loads data =
     (if data = ''two-days'' then
        Some (JObj [(''latitude'', JNum 37.4),
                    (''daily'', JObj [(''time'', JArr (map fst two_days)),
                                      (''temperature_2m_max'', JArr (map snd two_days))])])
      else if data = ''ragged'' then
        Some (JObj [(''daily'', JObj [(''time'', JArr [JStr ''2020-01-01'', JStr ''2020-01-02'']),
                                      (''temperature_2m_max'', JArr [JNum 10])])])
      else if data = ''rejected'' then
        Some (JObj [(''error'', JBool True), (''reason'', JStr ''Invalid date'')])
      else None)"

text \<open>
  The geocoder knows one postal code. For every other code but \<open>lon-only\<close> it returns
  the row of an unknown code, \<^verbatim>\<open>nan\<close> in every column; the row for \<open>lon-only\<close> has a
  longitude and no latitude.
\<close>

definition demo_geocoder :: "string \<Rightarrow> pyerr + geo_row" where
  "demo_geocoder zip_code =
     (if zip_code = ''94041'' then
        Inr \<lparr>geo_latitude = Float 37.39, geo_longitude = Float (- 122.08),
             geo_place_name = ''Mountain View''\<rparr>
      else if zip_code = ''lon-only'' then
        Inr \<lparr>geo_latitude = NaN, geo_longitude = Float (- 122.08), geo_place_name = ''nan''\<rparr>
      else Inr \<lparr>geo_latitude = NaN, geo_longitude = NaN, geo_place_name = ''nan''\<rparr>)"

definition demo_str :: "real \<Rightarrow> string" where
  "demo_str x = (if x = 15 then ''15.0'' else ''?'')"

text \<open>Exact arithmetic; \<open>demo_round\<close> rounds to \<open>n\<close> decimal places.\<close>

definition demo_round :: "real \<Rightarrow> int \<Rightarrow> real" where
  "demo_round x n = real_of_int (round (x * 10 ^ nat n)) / 10 ^ nat n"

definition demo_lib :: pylib where
  "demo_lib =
     \<lparr>json_loads = demo_loads, query_postal_code = demo_geocoder,
      num_add = (+), num_truediv = (/), py_round = demo_round, str_of_float = demo_str\<rparr>"

text \<open>
  \<open>steady_net\<close> refuses a query with the date \<open>bad\<close> and answers every other query with
  two days; \<open>failing_net\<close> refuses the first query and is unreachable afterwards;
  \<open>ragged_net\<close> always sends the payload with arrays of different lengths.
\<close>

definition steady_net :: network where
  "steady_net n q =
     (if start_date q = ''bad'' \<or> end_date q = ''bad'' then Inr ''rejected''
      else Inr ''two-days'')"

definition failing_net :: network where
  "failing_net n q = (if n = 0 then Inr ''rejected'' else Inl RequestException)"

definition ragged_net :: network where
  "ragged_net n q = Inr ''ragged''"

definition garbled_net :: network where
  "garbled_net n q = Inr ''<html>''"

definition demo_ds :: dataset where
  "demo_ds =
     \<lparr>ds_zip_code = ''94041'', ds_start = default_start, ds_end = default_end,
      ds_lat = Float 37.39, ds_lon = Float (- 122.08), ds_loc_name = ''Mountain View'',
      ds_temp_list = Some one_day\<rparr>"

section \<open>Properties\<close>

lemmas demo_defs = demo_lib_def demo_loads_def demo_geocoder_def demo_str_def demo_round_def
  steady_net_def failing_net_def ragged_net_def garbled_net_def demo_ds_def one_day_def
  two_days_def four_days_def default_start_def default_end_def

lemmas code_defs = load_temps_def requests_get_def parameters_def convert_json_to_list_def
  zip_dates_temps_def set_start_def set_end_def init_def zip_to_loc_info_def
  extreme_days_def average_temp_def top_x_days_def sorted_reverse_def slice_to_def
  compare_average_temps_def average_line_def is_number_def temp_of_def request_url_def

subsection \<open>The loader\<close>

lemma daily_loop_obj_aux:
  "daily_loop (JObj d) (map (\<lambda>kv. JStr (fst kv)) ks) (a, b) =
     Inr (if ''time'' \<in> fst ` set ks then map_of d ''time'' else a,
          if ''temperature_2m_max'' \<in> fst ` set ks then map_of d ''temperature_2m_max'' else b)"
  if "set ks \<subseteq> set d"
  using that
proof (induction ks arbitrary: a b)
  case Nil
  then show ?case by simp
next
  case (Cons kv ks)
  obtain k v where kv: "kv = (k, v)" by (cases kv)
  from Cons.prems kv have mem: "(k, v) \<in> set d" and sub: "set ks \<subseteq> set d" by auto
  from mem have dom: "map_of d k \<noteq> None"
    by (metis map_of_eq_None_iff fst_conv image_eqI)
  show ?case
    using dom sub kv by (auto simp: Cons.IH split: option.splits)
qed

lemma daily_loop_obj:
  assumes "map_of d ''time'' = Some dates" and "map_of d ''temperature_2m_max'' = Some temps"
  shows "daily_loop (JObj d) (map (\<lambda>kv. JStr (fst kv)) d) (None, None) =
           Inr (Some dates, Some temps)"
proof -
  from assms have "''time'' \<in> fst ` set d" and "''temperature_2m_max'' \<in> fst ` set d"
    by (auto dest!: map_of_SomeD intro: rev_image_eqI)
  then show ?thesis
    using assms daily_loop_obj_aux [of d d None None] by simp
qed

lemma convert_arrays:
  assumes "json_loads L data = Some (JObj kvs)"
    and "map_of kvs ''daily'' = Some (JObj d)"
    and "map_of d ''time'' = Some (JArr dates)"
    and "map_of d ''temperature_2m_max'' = Some (JArr temps)"
  shows "convert_json_to_list L data = Inr (zip dates temps)"
  using assms
  by (simp add: convert_json_to_list_def zip_dates_temps_def daily_loop_obj [of d "JArr dates" "JArr temps"])

lemma load_temps_Inl:
  "load_temps L self net = (Inl e, self', net') \<Longrightarrow> self' = self \<and> net' = (\<lambda>n. net (Suc n))"
  by (auto simp: load_temps_def requests_get_def split: sum.splits)

lemma load_temps_Inr:
  "load_temps L self net = (Inr xs, self', net') \<Longrightarrow>
     self' = self\<lparr>ds_temp_list := Some xs\<rparr> \<and> net' = (\<lambda>n. net (Suc n))"
  by (auto simp: load_temps_def requests_get_def split: sum.splits)

lemma load_temps_text:
  "net 0 (parameters self) = Inr data \<Longrightarrow>
     load_temps L self net =
       (case convert_json_to_list L data of
          Inl e \<Rightarrow> (Inl e, self, \<lambda>n. net (Suc n))
        | Inr xs \<Rightarrow> (Inr xs, self\<lparr>ds_temp_list := Some xs\<rparr>, \<lambda>n. net (Suc n)))"
  by (simp add: load_temps_def requests_get_def)

text \<open>
  Claim C7. For a response whose text decodes to an object with a \<open>daily\<close> object that
  holds the arrays \<open>time\<close> and \<open>temperature_2m_max\<close>, the conversion returns the positional
  zip of the two arrays as (date, temperature) pairs, in the order of the response, and
  the loader returns that list and stores it in the object.
\<close>

theorem loader_zips_arrays:
  assumes "net 0 (parameters self) = Inr data"
    and "json_loads L data = Some (JObj kvs)"
    and "map_of kvs ''daily'' = Some (JObj d)"
    and "map_of d ''time'' = Some (JArr dates)"
    and "map_of d ''temperature_2m_max'' = Some (JArr temps)"
  shows "convert_json_to_list L data = Inr (zip dates temps) \<and>
         load_temps L self net =
           (Inr (zip dates temps), self\<lparr>ds_temp_list := Some (zip dates temps)\<rparr>,
            \<lambda>n. net (Suc n)) \<and>
         (\<forall>i < length (zip dates temps). zip dates temps ! i = (dates ! i, temps ! i))"
  using assms by (simp add: load_temps_text convert_arrays [OF assms(2-5)])

theorem loader_zips_arrays_witness:
  "steady_net 0 (parameters demo_ds) = Inr ''two-days'' \<and>
   load_temps demo_lib demo_ds steady_net =
     (Inr two_days, demo_ds\<lparr>ds_temp_list := Some two_days\<rparr>, \<lambda>n. steady_net (Suc n))"
  using loader_zips_arrays [where net = steady_net and self = demo_ds
      and data = "''two-days''" and L = demo_lib
      and kvs = "[(''latitude'', JNum 37.4),
        (''daily'', JObj [(''time'', JArr (map fst two_days)),
                          (''temperature_2m_max'', JArr (map snd two_days))])]"
      and d = "[(''time'', JArr (map fst two_days)),
        (''temperature_2m_max'', JArr (map snd two_days))]"
      and dates = "map fst two_days" and temps = "map snd two_days"]
  by (simp add: demo_defs parameters_def)

text \<open>
  Claim C6, at the payload with two dates and one temperature: the load does not fail;
  it returns and stores the series of one point.
\<close>

theorem loader_ragged_counterexample:
  "ragged_net 0 (parameters demo_ds) = Inr ''ragged'' \<and>
   json_loads demo_lib ''ragged'' =
     Some (JObj [(''daily'', JObj [(''time'', JArr [JStr ''2020-01-01'', JStr ''2020-01-02'']),
                                   (''temperature_2m_max'', JArr [JNum 10])])]) \<and>
   load_temps demo_lib demo_ds ragged_net =
     (Inr [(JStr ''2020-01-01'', JNum 10)],
      demo_ds\<lparr>ds_temp_list := Some [(JStr ''2020-01-01'', JNum 10)]\<rparr>, ragged_net)"
  by (simp add: code_defs demo_defs fun_eq_iff)

text \<open>
  Claim C6 as the code has it. A text that is no JSON makes the load fail with the
  decoder's \<open>JSONDecodeError\<close>, and an object without the key \<open>daily\<close> with \<open>KeyError\<close>;
  in both cases the object is unchanged. Arrays of different lengths do not fail: the
  series is the zip of the two arrays, cut at the length of the shorter one.
\<close>

theorem loader_format_errors:
  assumes "net 0 (parameters self) = Inr data"
  shows "(json_loads L data = None \<longrightarrow>
            load_temps L self net = (Inl JSONDecodeError, self, \<lambda>n. net (Suc n))) \<and>
         (json_loads L data = Some (JObj kvs) \<and> map_of kvs ''daily'' = None \<longrightarrow>
            load_temps L self net = (Inl KeyError, self, \<lambda>n. net (Suc n))) \<and>
         (json_loads L data = Some (JObj kvs) \<and> map_of kvs ''daily'' = Some (JObj d) \<and>
          map_of d ''time'' = Some (JArr dates) \<and>
          map_of d ''temperature_2m_max'' = Some (JArr temps) \<longrightarrow>
            load_temps L self net =
              (Inr (zip dates temps), self\<lparr>ds_temp_list := Some (zip dates temps)\<rparr>,
               \<lambda>n. net (Suc n)) \<and>
            length (zip dates temps) = min (length dates) (length temps))"
proof (intro conjI impI)
  assume "json_loads L data = None"
  then show "load_temps L self net = (Inl JSONDecodeError, self, \<lambda>n. net (Suc n))"
    using assms by (simp add: load_temps_text convert_json_to_list_def)
next
  assume "json_loads L data = Some (JObj kvs) \<and> map_of kvs ''daily'' = None"
  then show "load_temps L self net = (Inl KeyError, self, \<lambda>n. net (Suc n))"
    using assms by (simp add: load_temps_text convert_json_to_list_def)
next
  assume "json_loads L data = Some (JObj kvs) \<and> map_of kvs ''daily'' = Some (JObj d) \<and>
          map_of d ''time'' = Some (JArr dates) \<and>
          map_of d ''temperature_2m_max'' = Some (JArr temps)"
  then have "convert_json_to_list L data = Inr (zip dates temps)"
    by (simp add: convert_arrays)
  then show "load_temps L self net =
              (Inr (zip dates temps), self\<lparr>ds_temp_list := Some (zip dates temps)\<rparr>,
               \<lambda>n. net (Suc n))"
    using assms by (simp add: load_temps_text)
next
  show "length (zip dates temps) = min (length dates) (length temps)"
    by simp
qed

theorem loader_format_errors_witness:
  "load_temps demo_lib demo_ds garbled_net = (Inl JSONDecodeError, demo_ds, garbled_net) \<and>
   load_temps demo_lib demo_ds failing_net =
     (Inl KeyError, demo_ds, \<lambda>n. failing_net (Suc n)) \<and>
   load_temps demo_lib demo_ds ragged_net =
     (Inr one_day, demo_ds\<lparr>ds_temp_list := Some one_day\<rparr>, ragged_net)"
proof -
  have g: "garbled_net 0 (parameters demo_ds) = Inr ''<html>''"
    and f: "failing_net 0 (parameters demo_ds) = Inr ''rejected''"
    and r: "ragged_net 0 (parameters demo_ds) = Inr ''ragged''"
    by (simp_all add: demo_defs)
  have gn: "(\<lambda>n. garbled_net (Suc n)) = garbled_net"
    and rn: "(\<lambda>n. ragged_net (Suc n)) = ragged_net"
    by (simp_all add: demo_defs fun_eq_iff)
  have a: "load_temps demo_lib demo_ds garbled_net = (Inl JSONDecodeError, demo_ds, garbled_net)"
    using loader_format_errors [where net = garbled_net and self = demo_ds
        and data = "''<html>''" and L = demo_lib, OF g]
    by (simp add: gn demo_defs)
  have b: "load_temps demo_lib demo_ds failing_net =
     (Inl KeyError, demo_ds, \<lambda>n. failing_net (Suc n))"
    using loader_format_errors [where net = failing_net and self = demo_ds
        and data = "''rejected''" and L = demo_lib
        and kvs = "[(''error'', JBool True), (''reason'', JStr ''Invalid date'')]", OF f]
    by (simp add: demo_lib_def demo_loads_def)
  have c: "load_temps demo_lib demo_ds ragged_net =
     (Inr one_day, demo_ds\<lparr>ds_temp_list := Some one_day\<rparr>, ragged_net)"
    using loader_format_errors [where net = ragged_net and self = demo_ds
        and data = "''ragged''" and L = demo_lib
        and kvs = "[(''daily'', JObj [(''time'', JArr [JStr ''2020-01-01'', JStr ''2020-01-02'']),
                                      (''temperature_2m_max'', JArr [JNum 10])])]"
        and d = "[(''time'', JArr [JStr ''2020-01-01'', JStr ''2020-01-02'']),
                  (''temperature_2m_max'', JArr [JNum 10])]"
        and dates = "[JStr ''2020-01-01'', JStr ''2020-01-02'']" and temps = "[JNum 10]", OF r]
    by (simp add: rn demo_lib_def demo_loads_def one_day_def)
  from a b c show ?thesis by blast
qed

subsection \<open>The setters\<close>

lemma set_start_rollback_loaded:
  assumes "load_temps L (self\<lparr>ds_start := s\<rparr>) net = (Inl e, self', net')"
    and "load_temps L self net' = (Inr xs, self'', net'')"
  shows "set_start L self s net = (Inl LookupError, self\<lparr>ds_temp_list := Some xs\<rparr>, net'')"
proof -
  from load_temps_Inl [OF assms(1)] have 1: "self' = self\<lparr>ds_start := s\<rparr>" ..
  from load_temps_Inr [OF assms(2)] have 2: "self'' = self\<lparr>ds_temp_list := Some xs\<rparr>" ..
  show ?thesis
    using assms 1 2 by (simp add: set_start_def)
qed

lemma set_end_rollback_loaded:
  assumes "load_temps L (self\<lparr>ds_end := s\<rparr>) net = (Inl e, self', net')"
    and "load_temps L self net' = (Inr xs, self'', net'')"
  shows "set_end L self s net = (Inl LookupError, self\<lparr>ds_temp_list := Some xs\<rparr>, net'')"
proof -
  from load_temps_Inl [OF assms(1)] have 1: "self' = self\<lparr>ds_end := s\<rparr>" ..
  from load_temps_Inr [OF assms(2)] have 2: "self'' = self\<lparr>ds_temp_list := Some xs\<rparr>" ..
  show ?thesis
    using assms 1 2 by (simp add: set_end_def)
qed

lemma set_start_rollback_failed:
  assumes "load_temps L (self\<lparr>ds_start := s\<rparr>) net = (Inl e, self', net')"
    and "load_temps L self net' = (Inl e', self'', net'')"
  shows "set_start L self s net = (Inl e', self, net'')"
proof -
  from load_temps_Inl [OF assms(1)] have 1: "self' = self\<lparr>ds_start := s\<rparr>" ..
  from load_temps_Inl [OF assms(2)] have 2: "self'' = self" ..
  show ?thesis
    using assms 1 2 by (simp add: set_start_def)
qed

lemma set_end_rollback_failed:
  assumes "load_temps L (self\<lparr>ds_end := s\<rparr>) net = (Inl e, self', net')"
    and "load_temps L self net' = (Inl e', self'', net'')"
  shows "set_end L self s net = (Inl e', self, net'')"
proof -
  from load_temps_Inl [OF assms(1)] have 1: "self' = self\<lparr>ds_end := s\<rparr>" ..
  from load_temps_Inl [OF assms(2)] have 2: "self'' = self" ..
  show ?thesis
    using assms 1 2 by (simp add: set_end_def)
qed

text \<open>
  Claim C1, at two inputs where the reload for the new start date fails. With
  \<open>failing_net\<close> the second reload fails too and the setter raises that reload's
  \<open>RequestException\<close>, not \<open>LookupError\<close>. With \<open>steady_net\<close> the second reload
  succeeds and the series is what it returned, two days, not the one day that was cached
  before the call.
\<close>

theorem setter_rollback_counterexample:
  "fst (load_temps demo_lib (demo_ds\<lparr>ds_start := ''bad''\<rparr>) failing_net) = Inl KeyError \<and>
   fst (set_start demo_lib demo_ds ''bad'' failing_net) = Inl RequestException \<and>
   fst (load_temps demo_lib (demo_ds\<lparr>ds_start := ''bad''\<rparr>) steady_net) = Inl KeyError \<and>
   ds_temp_list demo_ds = Some one_day \<and>
   ds_temp_list (fst (snd (set_start demo_lib demo_ds ''bad'' steady_net))) = Some two_days \<and>
   two_days \<noteq> one_day"
  by (simp add: code_defs demo_defs)

text \<open>
  Claim C1 as the code has it. When the reload for the new start (or end) date fails and
  the reload for the restored range returns a series, the setter raises \<open>LookupError\<close>;
  the range is what it was before the call, and the series is the one that the second
  reload returned. All other fields are unchanged.
\<close>

theorem setter_rollback_reload:
  "(load_temps L (self\<lparr>ds_start := s\<rparr>) net = (Inl e, self', net') \<longrightarrow>
    load_temps L self net' = (Inr xs, self'', net'') \<longrightarrow>
      set_start L self s net = (Inl LookupError, self\<lparr>ds_temp_list := Some xs\<rparr>, net'') \<and>
      ds_start (self\<lparr>ds_temp_list := Some xs\<rparr>) = ds_start self) \<and>
   (load_temps L (self\<lparr>ds_end := s\<rparr>) net = (Inl e, self', net') \<longrightarrow>
    load_temps L self net' = (Inr xs, self'', net'') \<longrightarrow>
      set_end L self s net = (Inl LookupError, self\<lparr>ds_temp_list := Some xs\<rparr>, net'') \<and>
      ds_end (self\<lparr>ds_temp_list := Some xs\<rparr>) = ds_end self)"
  by (simp add: set_start_rollback_loaded set_end_rollback_loaded)

theorem setter_rollback_reload_witness:
  "set_start demo_lib demo_ds ''bad'' steady_net =
     (Inl LookupError, demo_ds\<lparr>ds_temp_list := Some two_days\<rparr>, steady_net) \<and>
   set_end demo_lib demo_ds ''bad'' steady_net =
     (Inl LookupError, demo_ds\<lparr>ds_temp_list := Some two_days\<rparr>, steady_net)"
proof -
  have 1: "load_temps demo_lib (demo_ds\<lparr>ds_start := ''bad''\<rparr>) steady_net =
             (Inl KeyError, demo_ds\<lparr>ds_start := ''bad''\<rparr>, steady_net)"
    by (simp add: code_defs demo_defs fun_eq_iff)
  have 2: "load_temps demo_lib (demo_ds\<lparr>ds_end := ''bad''\<rparr>) steady_net =
             (Inl KeyError, demo_ds\<lparr>ds_end := ''bad''\<rparr>, steady_net)"
    by (simp add: code_defs demo_defs fun_eq_iff)
  have 3: "load_temps demo_lib demo_ds steady_net =
             (Inr two_days, demo_ds\<lparr>ds_temp_list := Some two_days\<rparr>, steady_net)"
    by (simp add: code_defs demo_defs fun_eq_iff)
  show ?thesis
    using setter_rollback_reload [where L = demo_lib and self = demo_ds and s = "''bad''"
        and net = steady_net and net' = steady_net and net'' = steady_net and e = KeyError
        and xs = two_days and self' = "demo_ds\<lparr>ds_start := ''bad''\<rparr>"
        and self'' = "demo_ds\<lparr>ds_temp_list := Some two_days\<rparr>"]
      setter_rollback_reload [where L = demo_lib and self = demo_ds and s = "''bad''"
        and net = steady_net and net' = steady_net and net'' = steady_net and e = KeyError
        and xs = two_days and self' = "demo_ds\<lparr>ds_end := ''bad''\<rparr>"
        and self'' = "demo_ds\<lparr>ds_temp_list := Some two_days\<rparr>"]
      1 2 3
    by simp
qed

text \<open>
  Claim C10. When the reload for the new start (or end) date fails and the reload for the
  restored range fails too, the setter raises the error of the second reload and the
  object is what it was before the call: the range is restored and the series is the one
  cached before.
\<close>

theorem setter_rollback_reload_fails:
  "(load_temps L (self\<lparr>ds_start := s\<rparr>) net = (Inl e, self', net') \<longrightarrow>
    load_temps L self net' = (Inl e', self'', net'') \<longrightarrow>
      set_start L self s net = (Inl e', self, net'')) \<and>
   (load_temps L (self\<lparr>ds_end := s\<rparr>) net = (Inl e, self', net') \<longrightarrow>
    load_temps L self net' = (Inl e', self'', net'') \<longrightarrow>
      set_end L self s net = (Inl e', self, net''))"
  by (simp add: set_start_rollback_failed set_end_rollback_failed)

theorem setter_rollback_reload_fails_witness:
  "set_start demo_lib demo_ds ''bad'' failing_net =
     (Inl RequestException, demo_ds, \<lambda>n. failing_net (Suc (Suc n))) \<and>
   set_end demo_lib demo_ds ''bad'' failing_net =
     (Inl RequestException, demo_ds, \<lambda>n. failing_net (Suc (Suc n))) \<and>
   RequestException \<noteq> LookupError"
proof -
  have 1: "load_temps demo_lib (demo_ds\<lparr>ds_start := ''bad''\<rparr>) failing_net =
             (Inl KeyError, demo_ds\<lparr>ds_start := ''bad''\<rparr>, \<lambda>n. failing_net (Suc n))"
    by (simp add: code_defs demo_defs)
  have 2: "load_temps demo_lib (demo_ds\<lparr>ds_end := ''bad''\<rparr>) failing_net =
             (Inl KeyError, demo_ds\<lparr>ds_end := ''bad''\<rparr>, \<lambda>n. failing_net (Suc n))"
    by (simp add: code_defs demo_defs)
  have 3: "load_temps demo_lib demo_ds (\<lambda>n. failing_net (Suc n)) =
             (Inl RequestException, demo_ds, \<lambda>n. failing_net (Suc (Suc n)))"
    by (simp add: code_defs demo_defs)
  show ?thesis
    using setter_rollback_reload_fails [where L = demo_lib and self = demo_ds
        and s = "''bad''" and net = failing_net and net' = "\<lambda>n. failing_net (Suc n)"
        and net'' = "\<lambda>n. failing_net (Suc (Suc n))" and e = KeyError
        and e' = RequestException and self' = "demo_ds\<lparr>ds_start := ''bad''\<rparr>"
        and self'' = demo_ds]
      setter_rollback_reload_fails [where L = demo_lib and self = demo_ds
        and s = "''bad''" and net = failing_net and net' = "\<lambda>n. failing_net (Suc n)"
        and net'' = "\<lambda>n. failing_net (Suc (Suc n))" and e = KeyError
        and e' = RequestException and self' = "demo_ds\<lparr>ds_end := ''bad''\<rparr>"
        and self'' = demo_ds]
      1 2 3
    by simp
qed

subsection \<open>The constructor\<close>




subsection \<open>The queries\<close>

lemma extremes_numbers:
  "\<forall>p\<in>set xs. is_number (snd p) \<Longrightarrow>
     extremes t xs = Inr (filter (\<lambda>p. t < temp_of p) xs)"
  by (induction xs) (auto simp: is_number_def temp_of_def)

lemma sum_temps_numbers:
  "\<forall>p\<in>set xs. is_number (snd p) \<Longrightarrow>
     sum_temps L a xs = Inr (foldl (num_add L) a (map temp_of xs))"
  by (induction xs arbitrary: a) (auto simp: is_number_def temp_of_def)

lemma sorted_reverse_numbers:
  assumes "\<forall>p\<in>set xs. is_number (snd p)"
  shows "sorted_reverse xs = Inr (rev (sort_key temp_of (rev xs)))"
proof (cases xs)
  case Nil
  then show ?thesis by (simp add: sorted_reverse_def)
next
  case (Cons x ys)
  show ?thesis
  proof (cases ys)
    case Nil
    with Cons show ?thesis by (simp add: sorted_reverse_def)
  next
    case (Cons y zs)
    with \<open>xs = x # ys\<close> assms show ?thesis
      by (simp add: sorted_reverse_def list_all_iff)
  qed
qed

lemma sorted_desc_rev_sort:
  "sorted_wrt (\<lambda>p q. temp_of q \<le> temp_of p) (rev (sort_key temp_of ys))"
proof -
  have "sorted (map temp_of (sort_key temp_of ys))"
    by (rule sorted_sort_key)
  then have "sorted_wrt (\<lambda>p q. temp_of p \<le> temp_of q) (sort_key temp_of ys)"
    by (simp add: sorted_map)
  then show ?thesis
    by (simp add: sorted_wrt_rev)
qed

lemma stable_rev_sort:
  "filter (\<lambda>p. temp_of p = k) (rev (sort_key temp_of (rev xs))) =
   filter (\<lambda>p. temp_of p = k) xs"
proof -
  have "filter (\<lambda>p. temp_of p = k) (rev (sort_key temp_of (rev xs))) =
        rev (filter (\<lambda>p. temp_of p = k) (sort_key temp_of (rev xs)))"
    by (simp add: rev_filter)
  also have "\<dots> = rev (filter (\<lambda>p. temp_of p = k) (rev xs))"
    by (simp only: sort_key_stable)
  also have "\<dots> = filter (\<lambda>p. temp_of p = k) xs"
    by (simp add: rev_filter)
  finally show ?thesis .
qed

text \<open>
  Claim C4. For a dataset whose series holds numbers as temperatures and for every
  threshold \<open>t\<close>, \<open>extreme_days\<close> returns the points of the cached series whose
  temperature is strictly greater than \<open>t\<close>, in the order of the series: nothing when no
  temperature exceeds \<open>t\<close>, the whole series when every temperature does.
\<close>

theorem extreme_days_filter:
  assumes "ds_temp_list self = Some xs" and "\<forall>p\<in>set xs. is_number (snd p)"
  shows "extreme_days self t = (Inr (filter (\<lambda>p. t < temp_of p) xs), self) \<and>
         ((\<forall>p\<in>set xs. temp_of p \<le> t) \<longrightarrow> extreme_days self t = (Inr [], self)) \<and>
         ((\<forall>p\<in>set xs. t < temp_of p) \<longrightarrow> extreme_days self t = (Inr xs, self))"
proof -
  have e: "extreme_days self t = (Inr (filter (\<lambda>p. t < temp_of p) xs), self)"
    using assms by (simp add: extreme_days_def extremes_numbers)
  have "filter (\<lambda>p. t < temp_of p) xs = []" if "\<forall>p\<in>set xs. temp_of p \<le> t"
    using that by (auto simp: filter_empty_conv)
  moreover have "filter (\<lambda>p. t < temp_of p) xs = xs" if "\<forall>p\<in>set xs. t < temp_of p"
    using that by (simp add: filter_id_conv)
  ultimately show ?thesis
    using e by simp
qed

theorem extreme_days_filter_witness:
  "extreme_days (demo_ds\<lparr>ds_temp_list := Some four_days\<rparr>) 20 =
     (Inr [(JStr ''2020-01-02'', JNum 30), (JStr ''2020-01-04'', JNum 30)],
      demo_ds\<lparr>ds_temp_list := Some four_days\<rparr>) \<and>
   extreme_days (demo_ds\<lparr>ds_temp_list := Some four_days\<rparr>) 30 =
     (Inr [], demo_ds\<lparr>ds_temp_list := Some four_days\<rparr>) \<and>
   extreme_days (demo_ds\<lparr>ds_temp_list := Some four_days\<rparr>) 5 =
     (Inr four_days, demo_ds\<lparr>ds_temp_list := Some four_days\<rparr>)"
proof -
  have s: "ds_temp_list (demo_ds\<lparr>ds_temp_list := Some four_days\<rparr>) = Some four_days"
    by simp
  have n: "\<forall>p\<in>set four_days. is_number (snd p)"
    by (simp add: four_days_def is_number_def)
  have lo: "\<forall>p\<in>set four_days. temp_of p \<le> 30" and hi: "\<forall>p\<in>set four_days. 5 < temp_of p"
    by (simp_all add: four_days_def temp_of_def)
  have f: "filter (\<lambda>p. 20 < temp_of p) four_days =
             [(JStr ''2020-01-02'', JNum 30), (JStr ''2020-01-04'', JNum 30)]"
    by (simp add: four_days_def temp_of_def)
  have a: "extreme_days (demo_ds\<lparr>ds_temp_list := Some four_days\<rparr>) 20 =
     (Inr [(JStr ''2020-01-02'', JNum 30), (JStr ''2020-01-04'', JNum 30)],
      demo_ds\<lparr>ds_temp_list := Some four_days\<rparr>)"
    using extreme_days_filter [OF s n, of 20] by (simp only: f)
  have b: "extreme_days (demo_ds\<lparr>ds_temp_list := Some four_days\<rparr>) 30 =
     (Inr [], demo_ds\<lparr>ds_temp_list := Some four_days\<rparr>)"
    using extreme_days_filter [OF s n, of 30] lo by blast
  have c: "extreme_days (demo_ds\<lparr>ds_temp_list := Some four_days\<rparr>) 5 =
     (Inr four_days, demo_ds\<lparr>ds_temp_list := Some four_days\<rparr>)"
    using extreme_days_filter [OF s n, of 5] hi by blast
  from a b c show ?thesis by blast
qed

text \<open>
  Claim C5. For a dataset whose series holds numbers as temperatures and for every
  \<open>n \<ge> 0\<close>, \<open>top_x_days\<close> returns the first \<open>n\<close> entries of a list \<open>s\<close>, hence \<open>n\<close>
  entries or all of them when the series is shorter; \<open>s\<close> is a rearrangement of the
  series, sorted by descending temperature, in which the points of equal temperature
  keep the order they have in the series.
\<close>

theorem top_x_days_sorted:
  assumes "ds_temp_list self = Some xs" and "\<forall>p\<in>set xs. is_number (snd p)" and "0 \<le> n"
  shows "\<exists>s. top_x_days self n = (Inr (take (nat n) s), self) \<and>
             length (take (nat n) s) = min (nat n) (length xs) \<and>
             mset s = mset xs \<and>
             sorted_wrt (\<lambda>p q. temp_of q \<le> temp_of p) s \<and>
             (\<forall>k. filter (\<lambda>p. temp_of p = k) s = filter (\<lambda>p. temp_of p = k) xs)"
proof (intro exI conjI allI)
  show "top_x_days self n = (Inr (take (nat n) (rev (sort_key temp_of (rev xs)))), self)"
    using assms by (simp add: top_x_days_def sorted_reverse_numbers slice_to_def)
  show "length (take (nat n) (rev (sort_key temp_of (rev xs)))) = min (nat n) (length xs)"
    by simp
  show "mset (rev (sort_key temp_of (rev xs))) = mset xs"
    by simp
  show "sorted_wrt (\<lambda>p q. temp_of q \<le> temp_of p) (rev (sort_key temp_of (rev xs)))"
    by (rule sorted_desc_rev_sort)
  show "filter (\<lambda>p. temp_of p = k) (rev (sort_key temp_of (rev xs))) =
        filter (\<lambda>p. temp_of p = k) xs" for k
    by (rule stable_rev_sort)
qed

theorem top_x_days_sorted_witness:
  "ds_temp_list (demo_ds\<lparr>ds_temp_list := Some four_days\<rparr>) = Some four_days \<and>
   list_all (\<lambda>p. is_number (snd p)) four_days \<and>
   top_x_days (demo_ds\<lparr>ds_temp_list := Some four_days\<rparr>) 3 =
     (Inr [(JStr ''2020-01-02'', JNum 30), (JStr ''2020-01-04'', JNum 30),
           (JStr ''2020-01-01'', JNum 10)],
      demo_ds\<lparr>ds_temp_list := Some four_days\<rparr>) \<and>
   (\<exists>s. top_x_days (demo_ds\<lparr>ds_temp_list := Some four_days\<rparr>) 3 =
          (Inr (take 3 s), demo_ds\<lparr>ds_temp_list := Some four_days\<rparr>) \<and>
        length (take 3 s) = 3 \<and>
        mset s = mset four_days \<and>
        sorted_wrt (\<lambda>p q. temp_of q \<le> temp_of p) s \<and>
        (\<forall>k. filter (\<lambda>p. temp_of p = k) s = filter (\<lambda>p. temp_of p = k) four_days))"
proof -
  have s: "ds_temp_list (demo_ds\<lparr>ds_temp_list := Some four_days\<rparr>) = Some four_days"
    by simp
  have n: "\<forall>p\<in>set four_days. is_number (snd p)"
    by (simp add: four_days_def is_number_def)
  have l: "min (nat 3) (length four_days) = 3"
    by (simp add: four_days_def)
  have v: "top_x_days (demo_ds\<lparr>ds_temp_list := Some four_days\<rparr>) 3 =
     (Inr [(JStr ''2020-01-02'', JNum 30), (JStr ''2020-01-04'', JNum 30),
           (JStr ''2020-01-01'', JNum 10)],
      demo_ds\<lparr>ds_temp_list := Some four_days\<rparr>)"
    by (simp add: code_defs demo_defs)
  from top_x_days_sorted [OF s n, of 3] l
  have "\<exists>s. top_x_days (demo_ds\<lparr>ds_temp_list := Some four_days\<rparr>) 3 =
          (Inr (take 3 s), demo_ds\<lparr>ds_temp_list := Some four_days\<rparr>) \<and>
        length (take 3 s) = 3 \<and>
        mset s = mset four_days \<and>
        sorted_wrt (\<lambda>p q. temp_of q \<le> temp_of p) s \<and>
        (\<forall>k. filter (\<lambda>p. temp_of p = k) s = filter (\<lambda>p. temp_of p = k) four_days)"
    by simp
  moreover from n have "list_all (\<lambda>p. is_number (snd p)) four_days"
    by (simp add: list_all_iff)
  ultimately show ?thesis
    using s v by blast
qed

subsection \<open>The average\<close>

lemma average_temp_loaded:
  assumes "load_temps L self net = (Inr fresh, self', net')"
  shows "average_temp L self net =
           (case sum_temps L 0 fresh of
              Inl e \<Rightarrow> (Inl e, self\<lparr>ds_temp_list := Some fresh\<rparr>, net')
            | Inr total_temps \<Rightarrow>
                if fresh = [] then (Inl ZeroDivisionError, self\<lparr>ds_temp_list := Some fresh\<rparr>, net')
                else (Inr (num_truediv L total_temps (real (length fresh))),
                      self\<lparr>ds_temp_list := Some fresh\<rparr>, net'))"
proof -
  from load_temps_Inr [OF assms] have "self' = self\<lparr>ds_temp_list := Some fresh\<rparr>" ..
  with assms show ?thesis
    by (simp add: average_temp_def split: sum.splits)
qed


text \<open>
  Claim C2, at a dataset that has one day cached while the archive now returns two days,
  10 and 20 degrees: the sum 30 divided by the length 1 of the series cached before the
  call is 30, and \<open>average_temp\<close> returns 15.
\<close>

theorem average_temp_old_length_counterexample:
  "ds_temp_list demo_ds = Some one_day \<and>
   fst (load_temps demo_lib demo_ds steady_net) = Inr two_days \<and>
   fst (average_temp demo_lib demo_ds steady_net) = Inr 15 \<and>
   num_truediv demo_lib (foldl (num_add demo_lib) 0 (map temp_of two_days))
     (real (length one_day)) = 30 \<and>
   fst (average_temp demo_lib demo_ds steady_net) \<noteq>
     Inr (num_truediv demo_lib (foldl (num_add demo_lib) 0 (map temp_of two_days))
            (real (length one_day)))"
  by (simp add: code_defs demo_defs)

text \<open>
  Claim C2 as the code has it. \<open>average_temp\<close> reloads the series and returns the sum of
  the reloaded temperatures divided by the length of the reloaded series, which is the
  cached series by the time the length is taken.
\<close>

theorem average_temp_fresh_length:
  assumes "load_temps L self net = (Inr fresh, self', net')"
    and "\<forall>p\<in>set fresh. is_number (snd p)" and "fresh \<noteq> []"
  shows "fst (average_temp L self net) =
           Inr (num_truediv L (foldl (num_add L) 0 (map temp_of fresh)) (real (length fresh)))"
  using assms by (simp add: average_temp_loaded [OF assms(1)] sum_temps_numbers)

theorem average_temp_fresh_length_witness:
  "load_temps demo_lib demo_ds steady_net =
     (Inr two_days, demo_ds\<lparr>ds_temp_list := Some two_days\<rparr>, \<lambda>n. steady_net (Suc n)) \<and>
   list_all (\<lambda>p. is_number (snd p)) two_days \<and> two_days \<noteq> [] \<and>
   fst (average_temp demo_lib demo_ds steady_net) = Inr 15"
proof -
  have l: "load_temps demo_lib demo_ds steady_net =
     (Inr two_days, demo_ds\<lparr>ds_temp_list := Some two_days\<rparr>, \<lambda>n. steady_net (Suc n))"
    by (simp add: code_defs demo_defs)
  have n: "\<forall>p\<in>set two_days. is_number (snd p)" and ne: "two_days \<noteq> []"
    by (simp_all add: two_days_def is_number_def)
  have v: "num_truediv demo_lib (foldl (num_add demo_lib) 0 (map temp_of two_days))
             (real (length two_days)) = 15"
    by (simp add: demo_lib_def two_days_def temp_of_def)
  from average_temp_fresh_length [OF l n ne] v
  have "fst (average_temp demo_lib demo_ds steady_net) = Inr 15"
    by simp
  with l n ne show ?thesis by (simp add: list_all_iff)
qed

text \<open>
  Claim C9. When its reload returns a series, \<open>average_temp\<close> leaves the object with that
  series in place of the cached one, and a value it returns is the sum divided by the
  length of the reloaded series. \<open>extreme_days\<close> and \<open>top_x_days\<close> leave the object as it
  is.
\<close>

theorem average_temp_overwrites_series:
  "(load_temps L self net = (Inr fresh, self', net') \<longrightarrow>
      fst (snd (average_temp L self net)) = self\<lparr>ds_temp_list := Some fresh\<rparr> \<and>
      (\<forall>avg. fst (average_temp L self net) = Inr avg \<longrightarrow>
         (\<exists>total_temps. sum_temps L 0 fresh = Inr total_temps \<and>
                  avg = num_truediv L total_temps (real (length fresh))))) \<and>
   snd (extreme_days self threshold) = self \<and>
   snd (top_x_days self num_days) = self"
proof (intro conjI impI)
  assume l: "load_temps L self net = (Inr fresh, self', net')"
  show "fst (snd (average_temp L self net)) = self\<lparr>ds_temp_list := Some fresh\<rparr>"
    by (simp add: average_temp_loaded [OF l] split: sum.splits)
  show "\<forall>avg. fst (average_temp L self net) = Inr avg \<longrightarrow>
         (\<exists>total_temps. sum_temps L 0 fresh = Inr total_temps \<and>
                  avg = num_truediv L total_temps (real (length fresh)))"
    by (auto simp: average_temp_loaded [OF l] split: sum.splits if_splits)
next
  show "snd (extreme_days self threshold) = self"
    by (simp add: extreme_days_def split: option.splits)
  show "snd (top_x_days self num_days) = self"
    by (simp add: top_x_days_def split: option.splits sum.splits)
qed

theorem average_temp_overwrites_series_witness:
  "ds_temp_list demo_ds = Some one_day \<and>
   average_temp demo_lib demo_ds steady_net =
     (Inr 15, demo_ds\<lparr>ds_temp_list := Some two_days\<rparr>, \<lambda>n. steady_net (Suc n)) \<and>
   (\<exists>total_temps. sum_temps demo_lib 0 two_days = Inr total_temps \<and>
            (15::real) = num_truediv demo_lib total_temps (real (length two_days))) \<and>
   snd (extreme_days demo_ds 5) = demo_ds \<and>
   snd (top_x_days demo_ds 10) = demo_ds"
proof -
  have l: "load_temps demo_lib demo_ds steady_net =
     (Inr two_days, demo_ds\<lparr>ds_temp_list := Some two_days\<rparr>, \<lambda>n. steady_net (Suc n))"
    by (simp add: code_defs demo_defs)
  have a: "average_temp demo_lib demo_ds steady_net =
     (Inr 15, demo_ds\<lparr>ds_temp_list := Some two_days\<rparr>, \<lambda>n. steady_net (Suc n))"
    by (simp add: code_defs demo_defs)
  have c: "ds_temp_list demo_ds = Some one_day"
    by (simp add: demo_ds_def)
  note t = average_temp_overwrites_series [where L = demo_lib and self = demo_ds
      and net = steady_net and fresh = two_days
      and self' = "demo_ds\<lparr>ds_temp_list := Some two_days\<rparr>"
      and net' = "\<lambda>n. steady_net (Suc n)" and threshold = 5 and num_days = 10]
  from t l a have "\<exists>total_temps. sum_temps demo_lib 0 two_days = Inr total_temps \<and>
            (15::real) = num_truediv demo_lib total_temps (real (length two_days))"
    by simp
  moreover from t have "snd (extreme_days demo_ds 5) = demo_ds"
    and "snd (top_x_days demo_ds 10) = demo_ds"
    by blast+
  ultimately show ?thesis
    using a c by blast
qed

subsection \<open>The comparison\<close>



end
